theory Spec2Isabelle
  imports Main
begin

section \<open>The collaborators: zap, zapcore, lumberjack, the Go runtime\<close>

text \<open>
  The repository is a facade over the zap logging library and the lumberjack rotation
  writer. Its own code builds values of their types and calls their methods, so the part
  of them that the facade touches is written down first: the severity levels, fields,
  encoder configurations, cores and the fan-out of a tee. None of this is code of the
  repository; it is the contract of the libraries as the facade relies on it.

  \<^verbatim>\<open>zapcore.Level\<close> is an \<^verbatim>\<open>int8\<close>. The facade only compares levels with the named
  constants, no arithmetic is done on them, so they are integers here.
\<close>

type_synonym Level = int

definition DebugLevel :: Level where "DebugLevel = -1"
definition InfoLevel :: Level where "InfoLevel = 0"
definition WarnLevel :: Level where "WarnLevel = 1"
definition ErrorLevel :: Level where "ErrorLevel = 2"
definition DPanicLevel :: Level where "DPanicLevel = 3"
definition PanicLevel :: Level where "PanicLevel = 4"
definition FatalLevel :: Level where "FatalLevel = 5"

text \<open>
  A \<^verbatim>\<open>zap.Field\<close>: a key, the type tag and the payload. \<^verbatim>\<open>zap.String(key, val)\<close> builds a
  field of string type.
\<close>

datatype FieldType = StringType | Int64Type | BoolType | ReflectType

record Field =
  Key :: string
  Type :: FieldType
  Integer :: int
  StringVal :: string

definition zap_String :: "string \<Rightarrow> string \<Rightarrow> Field" where
  "zap_String key val = \<lparr>Key = key, Type = StringType, Integer = 0, StringVal = val\<rparr>"

text \<open>
  Encoder configurations. The two presets of zap differ in their keys and in their level
  and time encoders; \<^verbatim>\<open>beijingTimeEncoder\<close> is the repository's own time encoder (RFC 3339
  with nanoseconds, in the zone Asia/Shanghai), a function value stored in the
  configuration.
\<close>

datatype TimeEncoder = EpochTimeEncoder | ISO8601TimeEncoder | beijingTimeEncoder

datatype LevelEncoder = LowercaseLevelEncoder | CapitalLevelEncoder

record EncoderConfig =
  TimeKey :: string
  LevelKey :: string
  MessageKey :: string
  StacktraceKey :: string
  EncodeLevel :: LevelEncoder
  EncodeTime :: TimeEncoder

definition NewProductionEncoderConfig :: EncoderConfig where
  "NewProductionEncoderConfig =
     \<lparr>TimeKey = ''ts'', LevelKey = ''level'', MessageKey = ''msg'',
      StacktraceKey = ''stacktrace'', EncodeLevel = LowercaseLevelEncoder,
      EncodeTime = EpochTimeEncoder\<rparr>"

definition NewDevelopmentEncoderConfig :: EncoderConfig where
  "NewDevelopmentEncoderConfig =
     \<lparr>TimeKey = ''T'', LevelKey = ''L'', MessageKey = ''M'',
      StacktraceKey = ''S'', EncodeLevel = CapitalLevelEncoder,
      EncodeTime = ISO8601TimeEncoder\<rparr>"

datatype Encoder = NewJSONEncoder EncoderConfig | NewConsoleEncoder EncoderConfig

text \<open>
  The rotation writer of lumberjack with the four fields the repository sets, and the
  write syncers built from it and from standard output.
\<close>

record lumberjack_Logger =
  Filename :: string
  MaxSize :: int
  MaxBackups :: int
  MaxAge :: int

datatype Writer = lumberjack lumberjack_Logger | os_Stdout | Lock Writer

datatype WriteSyncer = AddSync Writer

text \<open>
  A level enabler is either a level (everything at or above it is enabled) or a function
  wrapped by \<^verbatim>\<open>zap.LevelEnablerFunc\<close>.
\<close>

datatype LevelEnabler = MinLevel Level | LevelEnablerFunc "Level \<Rightarrow> bool"

fun Enabled :: "LevelEnabler \<Rightarrow> Level \<Rightarrow> bool" where
  "Enabled (MinLevel l) lvl = (l \<le> lvl)"
| "Enabled (LevelEnablerFunc f) lvl = f lvl"

record Core =
  enc :: Encoder
  out :: WriteSyncer
  enab :: LevelEnabler

definition NewCore :: "Encoder \<Rightarrow> WriteSyncer \<Rightarrow> LevelEnabler \<Rightarrow> Core" where
  "NewCore e w l = \<lparr>enc = e, out = w, enab = l\<rparr>"

text \<open>
  A tee is the list of its cores. A record handed to it is checked against every core and
  written by those whose enabler accepts the level, in the order of the list.
\<close>

type_synonym Tee = "Core list"

definition NewTee :: "Core list \<Rightarrow> Tee" where
  "NewTee cores = cores"

definition Check :: "Tee \<Rightarrow> Level \<Rightarrow> Core list" where
  "Check t lvl = filter (\<lambda>c. Enabled (enab c) lvl) t"

record zap_Logger =
  core :: Tee

definition zap_New :: "Tee \<Rightarrow> zap_Logger" where
  "zap_New c = \<lparr>core = c\<rparr>"

text \<open>
  What one call of a zap logging method does: a record (level, message, fields) is
  written by each accepting core. A delivery pairs the core with the record it wrote.
\<close>

record LogRecord =
  Level :: Level
  Message :: string
  Fields :: "Field list"

type_synonym Delivery = "Core \<times> LogRecord"

definition zap_log :: "zap_Logger \<Rightarrow> Level \<Rightarrow> string \<Rightarrow> Field list \<Rightarrow> Delivery list" where
  "zap_log z lvl msg fs =
     map (\<lambda>c. (c, \<lparr>Level = lvl, Message = msg, Fields = fs\<rparr>)) (Check (core z) lvl)"

text \<open>
  Go values of interface type, as far as the facade looks at them: an \<^verbatim>\<open>error\<close> is known
  by the message its \<^verbatim>\<open>Error()\<close> method returns; an argument of type \<^verbatim>\<open>interface{}\<close> is
  nil, an error, or some other value.
\<close>

datatype error = errors_New (err_Error: string)

datatype iface = iface_nil | iface_error error | iface_string string | iface_int int

text \<open>
  \<^verbatim>\<open>runtime.Stack(buf, false)\<close> formats the stack trace of the calling goroutine into
  \<^verbatim>\<open>buf\<close> and returns the number of bytes written, at most the length of the buffer.
  The text of the trace is a parameter.
\<close>

definition runtime_Stack :: "string \<Rightarrow> string \<Rightarrow> nat \<times> string" where
  "runtime_Stack trace buf =
     (let n = min (length trace) (length buf) in (n, take n trace @ drop n buf))"

text \<open>
  A Go panic. The only ones the facade can raise are nil pointer dereferences; the tag
  says which pointer was nil: the receiver of a \<^verbatim>\<open>Logger\<close> method, an \<^verbatim>\<open>error\<close> whose
  \<^verbatim>\<open>Error()\<close> is called, or the configuration.
\<close>

datatype pointer = ptr_Logger | ptr_error | ptr_Config

datatype panic = NilPointerDereference pointer

text \<open>
  The logging methods of \<^verbatim>\<open>zap.Logger\<close> that the facade calls. Each returns after the
  accepting cores have written the record, except \<^verbatim>\<open>Fatal\<close>, which writes and then ends
  the process with \<^verbatim>\<open>os.Exit(1)\<close>. \<^verbatim>\<open>Sync\<close> writes no record; what it does to the
  destinations lies in the libraries and the operating system and is not modelled.
\<close>

datatype effect = Returned "Delivery list" | Exited "Delivery list" | Panicked panic

definition zap_Info :: "zap_Logger \<Rightarrow> string \<Rightarrow> Field list \<Rightarrow> effect" where
  "zap_Info z msg fs = Returned (zap_log z InfoLevel msg fs)"

definition zap_Error :: "zap_Logger \<Rightarrow> string \<Rightarrow> Field list \<Rightarrow> effect" where
  "zap_Error z msg fs = Returned (zap_log z ErrorLevel msg fs)"

definition zap_Debug :: "zap_Logger \<Rightarrow> string \<Rightarrow> Field list \<Rightarrow> effect" where
  "zap_Debug z msg fs = Returned (zap_log z DebugLevel msg fs)"

definition zap_Warn :: "zap_Logger \<Rightarrow> string \<Rightarrow> Field list \<Rightarrow> effect" where
  "zap_Warn z msg fs = Returned (zap_log z WarnLevel msg fs)"

definition zap_Fatal :: "zap_Logger \<Rightarrow> string \<Rightarrow> Field list \<Rightarrow> effect" where
  "zap_Fatal z msg fs = Exited (zap_log z FatalLevel msg fs)"

definition zap_Sync :: "zap_Logger \<Rightarrow> effect" where
  "zap_Sync z = Returned []"

fun deliveries :: "effect \<Rightarrow> Delivery list" where
  "deliveries (Returned ds) = ds"
| "deliveries (Exited ds) = ds"
| "deliveries (Panicked p) = []"

definition records_of :: "effect \<Rightarrow> LogRecord list" where
  "records_of e = map snd (deliveries e)"

section \<open>The root package\<close>

text \<open>
  The repository holds three copies of package \<^verbatim>\<open>logger\<close>. The copy at the root of the
  module is the most complete one (console channel, mode, error variants with a stack
  trace); it keeps the names of the source. The copy under \<^verbatim>\<open>pkg/logger\<close> and the third,
  oldest copy follow below with the prefixes \<open>pkg\<close> and \<open>p0\<close>.
\<close>

record Logger =
  zap :: zap_Logger

record Config =
  InfoLogPath :: string
  ErrorLogPath :: string
  Mode :: string

definition zapErrorWithStack :: "string \<Rightarrow> error option \<Rightarrow> panic + (Field \<times> Field)" where
  "zapErrorWithStack trace err =
     (let buf = replicate 1024 (CHR 0x00);
          (n, buf') = runtime_Stack trace buf
      in case err of
           None \<Rightarrow> Inl (NilPointerDereference ptr_error)
         | Some e \<Rightarrow>
             Inr (zap_String ''error'' (err_Error e), zap_String ''stacktrace'' (take n buf')))"

definition getEncoderConfig :: "Config \<Rightarrow> EncoderConfig" where
  "getEncoderConfig config =
     (let logMode = Mode config
      in if logMode = ''prod'' then NewProductionEncoderConfig
         else NewDevelopmentEncoderConfig)"

definition infoLogWriter :: "Config \<Rightarrow> lumberjack_Logger" where
  "infoLogWriter config =
     \<lparr>Filename = InfoLogPath config, MaxSize = 500, MaxBackups = 3, MaxAge = 28\<rparr>"

definition errorLogWriter :: "Config \<Rightarrow> lumberjack_Logger" where
  "errorLogWriter config =
     \<lparr>Filename = ErrorLogPath config, MaxSize = 500, MaxBackups = 3, MaxAge = 28\<rparr>"

definition encoderConfig :: EncoderConfig where
  "encoderConfig = NewProductionEncoderConfig\<lparr>EncodeTime := beijingTimeEncoder\<rparr>"

definition infoCore :: "Config \<Rightarrow> Core" where
  "infoCore config =
     NewCore (NewJSONEncoder encoderConfig) (AddSync (lumberjack (infoLogWriter config)))
       (LevelEnablerFunc (\<lambda>lvl. lvl \<ge> DebugLevel \<and> lvl \<le> WarnLevel))"

definition errorCore :: "Config \<Rightarrow> Core" where
  "errorCore config =
     NewCore (NewJSONEncoder encoderConfig) (AddSync (lumberjack (errorLogWriter config)))
       (LevelEnablerFunc (\<lambda>lvl. lvl \<ge> ErrorLevel))"

definition consoleCore :: "Config \<Rightarrow> Core" where
  "consoleCore config =
     (let consoleEncoderConfig = getEncoderConfig config
      in NewCore (NewConsoleEncoder consoleEncoderConfig) (AddSync (Lock os_Stdout))
           (MinLevel DebugLevel))"

text \<open>
  \<^verbatim>\<open>NewLogger\<close> takes a pointer to the configuration and reads its fields in its first
  statement: a nil pointer panics there.
\<close>

definition NewLogger :: "Config option \<Rightarrow> panic + Logger" where
  "NewLogger config =
     (case config of
        None \<Rightarrow> Inl (NilPointerDereference ptr_Config)
      | Some c \<Rightarrow>
          (let core = NewTee [infoCore c, errorCore c, consoleCore c];
               zlog = zap_New core
           in Inr \<lparr>zap = zlog\<rparr>))"

text \<open>
  The methods of \<^verbatim>\<open>*Logger\<close>. The receiver is a pointer: calling a method on a nil
  receiver is allowed in Go, and the panic comes where the method reads \<^verbatim>\<open>l.zap\<close>.
\<close>

definition Logger_Info :: "Logger option \<Rightarrow> string \<Rightarrow> Field list \<Rightarrow> effect" where
  "Logger_Info l msg tags =
     (case l of
        None \<Rightarrow> Panicked (NilPointerDereference ptr_Logger)
      | Some lg \<Rightarrow> zap_Info (zap lg) msg tags)"

text \<open>
  \<^verbatim>\<open>Logger.Error\<close> first calls \<^verbatim>\<open>zapErrorWithStack(err)\<close>, then builds the argument list
  of \<^verbatim>\<open>append\<close> (which calls \<^verbatim>\<open>err.Error()\<close> once more), and only then reads \<^verbatim>\<open>l.zap\<close>.
\<close>

definition Logger_Error ::
  "string \<Rightarrow> Logger option \<Rightarrow> string \<Rightarrow> error option \<Rightarrow> Field list \<Rightarrow> effect" where
  "Logger_Error trace l msg err tags =
     (case zapErrorWithStack trace err of
        Inl p \<Rightarrow> Panicked p
      | Inr (errMsg, errStack) \<Rightarrow>
          (case err of
             None \<Rightarrow> Panicked (NilPointerDereference ptr_error)
           | Some e \<Rightarrow>
               (let allFields = tags @ [zap_String ''error'' (err_Error e), errMsg, errStack]
                in case l of
                     None \<Rightarrow> Panicked (NilPointerDereference ptr_Logger)
                   | Some lg \<Rightarrow> zap_Error (zap lg) msg allFields)))"

definition Logger_Debug :: "Logger option \<Rightarrow> string \<Rightarrow> Field list \<Rightarrow> effect" where
  "Logger_Debug l msg tags =
     (case l of
        None \<Rightarrow> Panicked (NilPointerDereference ptr_Logger)
      | Some lg \<Rightarrow> zap_Debug (zap lg) msg tags)"

definition Logger_Warn :: "Logger option \<Rightarrow> string \<Rightarrow> Field list \<Rightarrow> effect" where
  "Logger_Warn l msg tags =
     (case l of
        None \<Rightarrow> Panicked (NilPointerDereference ptr_Logger)
      | Some lg \<Rightarrow> zap_Warn (zap lg) msg tags)"

definition Logger_Fatal :: "Logger option \<Rightarrow> string \<Rightarrow> Field list \<Rightarrow> effect" where
  "Logger_Fatal l msg tags =
     (case l of
        None \<Rightarrow> Panicked (NilPointerDereference ptr_Logger)
      | Some lg \<Rightarrow> zap_Fatal (zap lg) msg tags)"

text \<open>
  The formatted methods. \<^verbatim>\<open>fmt.Sprintf\<close> is a parameter \<open>sprintf\<close> of the model. It has
  no effect on the state, so a nil receiver panics whether the message is rendered before
  or after \<^verbatim>\<open>l.zap\<close> is read.
\<close>

type_synonym Sprintf = "string \<Rightarrow> iface list \<Rightarrow> string"

definition Logger_Infof :: "Sprintf \<Rightarrow> Logger option \<Rightarrow> string \<Rightarrow> iface list \<Rightarrow> effect" where
  "Logger_Infof sprintf l msg args =
     (let m = sprintf msg args
      in case l of
           None \<Rightarrow> Panicked (NilPointerDereference ptr_Logger)
         | Some lg \<Rightarrow> zap_Info (zap lg) m [])"

text \<open>
  The type assertion \<^verbatim>\<open>e, ok := arg.(error)\<close> (it fails on a nil interface value), and
  the loop of \<^verbatim>\<open>Errorf\<close> that sets \<^verbatim>\<open>stackErr\<close> at the first argument on which the
  assertion holds and breaks; \<^verbatim>\<open>stackErr\<close> stays nil when the range is exhausted.
\<close>

fun assert_error :: "iface \<Rightarrow> error option" where
  "assert_error (iface_error e) = Some e"
| "assert_error arg = None"

fun stackErr :: "iface list \<Rightarrow> error option" where
  "stackErr [] = None"
| "stackErr (arg # args) =
     (case assert_error arg of Some e \<Rightarrow> Some e | None \<Rightarrow> stackErr args)"

definition Logger_Errorf ::
  "Sprintf \<Rightarrow> string \<Rightarrow> Logger option \<Rightarrow> string \<Rightarrow> iface list \<Rightarrow> effect" where
  "Logger_Errorf sprintf trace l format args =
     (let msg = sprintf format args
      in case stackErr args of
           Some e \<Rightarrow>
             (case zapErrorWithStack trace (Some e) of
                Inl p \<Rightarrow> Panicked p
              | Inr (errMsg, errStack) \<Rightarrow>
                  (case l of
                     None \<Rightarrow> Panicked (NilPointerDereference ptr_Logger)
                   | Some lg \<Rightarrow> zap_Error (zap lg) msg [errMsg, errStack]))
         | None \<Rightarrow>
             (case l of
                None \<Rightarrow> Panicked (NilPointerDereference ptr_Logger)
              | Some lg \<Rightarrow> zap_Error (zap lg) msg []))"

definition Logger_Debugf :: "Sprintf \<Rightarrow> Logger option \<Rightarrow> string \<Rightarrow> iface list \<Rightarrow> effect" where
  "Logger_Debugf sprintf l msg args =
     (let m = sprintf msg args
      in case l of
           None \<Rightarrow> Panicked (NilPointerDereference ptr_Logger)
         | Some lg \<Rightarrow> zap_Debug (zap lg) m [])"

definition Logger_Warnf :: "Sprintf \<Rightarrow> Logger option \<Rightarrow> string \<Rightarrow> iface list \<Rightarrow> effect" where
  "Logger_Warnf sprintf l msg args =
     (let m = sprintf msg args
      in case l of
           None \<Rightarrow> Panicked (NilPointerDereference ptr_Logger)
         | Some lg \<Rightarrow> zap_Warn (zap lg) m [])"

definition Logger_Fatalf :: "Sprintf \<Rightarrow> Logger option \<Rightarrow> string \<Rightarrow> iface list \<Rightarrow> effect" where
  "Logger_Fatalf sprintf l msg args =
     (let m = sprintf msg args
      in case l of
           None \<Rightarrow> Panicked (NilPointerDereference ptr_Logger)
         | Some lg \<Rightarrow> zap_Fatal (zap lg) m [])"

subsection \<open>The package state and the package-level functions\<close>

text \<open>
  The state of a process that uses the package: the \<^verbatim>\<open>Logger\<close> values allocated so far
  (\<^verbatim>\<open>&Logger{...}\<close> allocates; an address is an index into \<open>heap\<close>), the package
  variables \<^verbatim>\<open>logInstance\<close> (a pointer, nil at start) and \<^verbatim>\<open>once\<close> (whether
  \<^verbatim>\<open>once.Do\<close> has run its function), and the records written so far.
\<close>

record Process =
  heap :: "Logger list"
  logInstance :: "nat option"
  once :: bool
  written :: "Delivery list"

definition start :: Process where
  "start = \<lparr>heap = [], logInstance = None, once = False, written = []\<rparr>"

datatype outcome = Returns Process | Exits Process | Panics panic Process

fun state_of :: "outcome \<Rightarrow> Process" where
  "state_of (Returns s) = s"
| "state_of (Exits s) = s"
| "state_of (Panics p s) = s"

definition load :: "Process \<Rightarrow> nat option \<Rightarrow> Logger option" where
  "load s p =
     (case p of
        None \<Rightarrow> None
      | Some a \<Rightarrow> if a < length (heap s) then Some (heap s ! a) else None)"

fun perform :: "effect \<Rightarrow> Process \<Rightarrow> outcome" where
  "perform (Returned ds) s = Returns (s\<lparr>written := written s @ ds\<rparr>)"
| "perform (Exited ds) s = Exits (s\<lparr>written := written s @ ds\<rparr>)"
| "perform (Panicked p) s = Panics p s"

text \<open>
  \<^verbatim>\<open>once.Do(f)\<close> runs \<open>f\<close> unless an earlier call has done so, and counts \<open>f\<close> as
  done also when it panics.
\<close>

definition Init :: "Config option \<Rightarrow> Process \<Rightarrow> outcome" where
  "Init config s =
     (if once s then Returns s
      else case NewLogger config of
             Inl p \<Rightarrow> Panics p (s\<lparr>once := True\<rparr>)
           | Inr lg \<Rightarrow>
               Returns (s\<lparr>heap := heap s @ [lg], logInstance := Some (length (heap s)),
                          once := True\<rparr>))"

definition Info :: "string \<Rightarrow> Field list \<Rightarrow> Process \<Rightarrow> outcome" where
  "Info msg tags s = perform (Logger_Info (load s (logInstance s)) msg tags) s"

definition Error :: "string \<Rightarrow> string \<Rightarrow> error option \<Rightarrow> Field list \<Rightarrow> Process \<Rightarrow> outcome" where
  "Error trace msg err tags s =
     perform (Logger_Error trace (load s (logInstance s)) msg err tags) s"

definition Debug :: "string \<Rightarrow> Field list \<Rightarrow> Process \<Rightarrow> outcome" where
  "Debug msg tags s = perform (Logger_Debug (load s (logInstance s)) msg tags) s"

definition Warn :: "string \<Rightarrow> Field list \<Rightarrow> Process \<Rightarrow> outcome" where
  "Warn msg tags s = perform (Logger_Warn (load s (logInstance s)) msg tags) s"

definition Fatal :: "string \<Rightarrow> Field list \<Rightarrow> Process \<Rightarrow> outcome" where
  "Fatal msg tags s = perform (Logger_Fatal (load s (logInstance s)) msg tags) s"

definition Infof :: "Sprintf \<Rightarrow> string \<Rightarrow> iface list \<Rightarrow> Process \<Rightarrow> outcome" where
  "Infof sprintf msg args s =
     perform (Logger_Info (load s (logInstance s)) (sprintf msg args) []) s"

definition Errorf :: "Sprintf \<Rightarrow> string \<Rightarrow> string \<Rightarrow> iface list \<Rightarrow> Process \<Rightarrow> outcome" where
  "Errorf sprintf trace format args s =
     perform (Logger_Errorf sprintf trace (load s (logInstance s)) format args) s"

definition Debugf :: "Sprintf \<Rightarrow> string \<Rightarrow> iface list \<Rightarrow> Process \<Rightarrow> outcome" where
  "Debugf sprintf msg args s =
     perform (Logger_Debug (load s (logInstance s)) (sprintf msg args) []) s"

definition Warnf :: "Sprintf \<Rightarrow> string \<Rightarrow> iface list \<Rightarrow> Process \<Rightarrow> outcome" where
  "Warnf sprintf msg args s =
     perform (Logger_Warn (load s (logInstance s)) (sprintf msg args) []) s"

definition Fatalf :: "Sprintf \<Rightarrow> string \<Rightarrow> iface list \<Rightarrow> Process \<Rightarrow> outcome" where
  "Fatalf sprintf msg args s =
     perform (Logger_Fatal (load s (logInstance s)) (sprintf msg args) []) s"

definition GetInstance :: "Process \<Rightarrow> nat option" where
  "GetInstance s = logInstance s"

definition Cleanup :: "Process \<Rightarrow> outcome" where
  "Cleanup s =
     (case load s (logInstance s) of
        None \<Rightarrow> Panics (NilPointerDereference ptr_Logger) s
      | Some lg \<Rightarrow> perform (zap_Sync (zap lg)) s)"

text \<open>
  A call of a package-level function with its arguments; \<open>trace\<close> is the stack of the
  calling goroutine at the call. \<open>exec\<close> runs one call, \<open>run\<close> a sequence of calls,
  stopping at the first panic or exit. \<^verbatim>\<open>sync.Once\<close> serialises concurrent calls of
  \<^verbatim>\<open>Do\<close>, so a concurrent use of \<^verbatim>\<open>Init\<close> is some sequence of its calls.
\<close>

datatype Call =
    Call_Init "Config option"
  | Call_Info string "Field list"
  | Call_Error string string "error option" "Field list"
  | Call_Debug string "Field list"
  | Call_Warn string "Field list"
  | Call_Fatal string "Field list"
  | Call_Infof string "iface list"
  | Call_Errorf string string "iface list"
  | Call_Debugf string "iface list"
  | Call_Warnf string "iface list"
  | Call_Fatalf string "iface list"
  | Call_GetInstance
  | Call_Cleanup

fun exec :: "Sprintf \<Rightarrow> Call \<Rightarrow> Process \<Rightarrow> outcome" where
  "exec sprintf (Call_Init config) s = Init config s"
| "exec sprintf (Call_Info msg tags) s = Info msg tags s"
| "exec sprintf (Call_Error trace msg err tags) s = Error trace msg err tags s"
| "exec sprintf (Call_Debug msg tags) s = Debug msg tags s"
| "exec sprintf (Call_Warn msg tags) s = Warn msg tags s"
| "exec sprintf (Call_Fatal msg tags) s = Fatal msg tags s"
| "exec sprintf (Call_Infof msg args) s = Infof sprintf msg args s"
| "exec sprintf (Call_Errorf trace format args) s = Errorf sprintf trace format args s"
| "exec sprintf (Call_Debugf msg args) s = Debugf sprintf msg args s"
| "exec sprintf (Call_Warnf msg args) s = Warnf sprintf msg args s"
| "exec sprintf (Call_Fatalf msg args) s = Fatalf sprintf msg args s"
| "exec sprintf Call_GetInstance s = Returns s"
| "exec sprintf Call_Cleanup s = Cleanup s"

fun run :: "Sprintf \<Rightarrow> Call list \<Rightarrow> Process \<Rightarrow> outcome" where
  "run sprintf [] s = Returns s"
| "run sprintf (c # cs) s =
     (case exec sprintf c s of
        Returns s' \<Rightarrow> run sprintf cs s'
      | Exits s' \<Rightarrow> Exits s'
      | Panics p s' \<Rightarrow> Panics p s')"

text \<open>The logging functions and the flush, as opposed to \<^verbatim>\<open>Init\<close> and \<^verbatim>\<open>GetInstance\<close>.\<close>

fun logs_or_flushes :: "Call \<Rightarrow> bool" where
  "logs_or_flushes (Call_Init config) = False"
| "logs_or_flushes Call_GetInstance = False"
| "logs_or_flushes c = True"

section \<open>The copy under pkg/logger\<close>

text \<open>
  \<^verbatim>\<open>pkg/logger/go-logger.go\<close> is an earlier state of the same package. Its configuration
  has no mode, there is no console core, the file cores take a minimum level instead of a
  range, and \<^verbatim>\<open>Error\<close> and \<^verbatim>\<open>Errorf\<close> take no error and attach nothing. Its
  \<^verbatim>\<open>Logger\<close> struct, the methods \<^verbatim>\<open>Info\<close>, \<^verbatim>\<open>Debug\<close>, \<^verbatim>\<open>Warn\<close>, \<^verbatim>\<open>Fatal\<close>, \<^verbatim>\<open>Infof\<close>,
  \<^verbatim>\<open>Debugf\<close>, \<^verbatim>\<open>Warnf\<close>, \<^verbatim>\<open>Fatalf\<close>, the package-level functions of these names and
  \<^verbatim>\<open>Cleanup\<close> have the text of the root package, and the definitions above stand for
  them; what differs is defined here.
\<close>

record pkg_Config =
  pkg_InfoLogPath :: string
  pkg_ErrorLogPath :: string

definition pkg_infoLogWriter :: "pkg_Config \<Rightarrow> lumberjack_Logger" where
  "pkg_infoLogWriter config =
     \<lparr>Filename = pkg_InfoLogPath config, MaxSize = 500, MaxBackups = 3, MaxAge = 28\<rparr>"

definition pkg_errorLogWriter :: "pkg_Config \<Rightarrow> lumberjack_Logger" where
  "pkg_errorLogWriter config =
     \<lparr>Filename = pkg_ErrorLogPath config, MaxSize = 500, MaxBackups = 3, MaxAge = 28\<rparr>"

definition pkg_infoCore :: "pkg_Config \<Rightarrow> Core" where
  "pkg_infoCore config =
     NewCore (NewJSONEncoder encoderConfig) (AddSync (lumberjack (pkg_infoLogWriter config)))
       (MinLevel InfoLevel)"

definition pkg_errorCore :: "pkg_Config \<Rightarrow> Core" where
  "pkg_errorCore config =
     NewCore (NewJSONEncoder encoderConfig) (AddSync (lumberjack (pkg_errorLogWriter config)))
       (MinLevel ErrorLevel)"

definition pkg_NewLogger :: "pkg_Config option \<Rightarrow> panic + Logger" where
  "pkg_NewLogger config =
     (case config of
        None \<Rightarrow> Inl (NilPointerDereference ptr_Config)
      | Some c \<Rightarrow>
          (let core = NewTee [pkg_infoCore c, pkg_errorCore c];
               zlog = zap_New core
           in Inr \<lparr>zap = zlog\<rparr>))"

definition pkg_Logger_Error :: "Logger option \<Rightarrow> string \<Rightarrow> Field list \<Rightarrow> effect" where
  "pkg_Logger_Error l msg tags =
     (case l of
        None \<Rightarrow> Panicked (NilPointerDereference ptr_Logger)
      | Some lg \<Rightarrow> zap_Error (zap lg) msg tags)"

definition pkg_Logger_Errorf :: "Sprintf \<Rightarrow> Logger option \<Rightarrow> string \<Rightarrow> iface list \<Rightarrow> effect" where
  "pkg_Logger_Errorf sprintf l msg args =
     (let m = sprintf msg args
      in case l of
           None \<Rightarrow> Panicked (NilPointerDereference ptr_Logger)
         | Some lg \<Rightarrow> zap_Error (zap lg) m [])"

definition pkg_Init :: "pkg_Config option \<Rightarrow> Process \<Rightarrow> outcome" where
  "pkg_Init config s =
     (if once s then Returns s
      else case pkg_NewLogger config of
             Inl p \<Rightarrow> Panics p (s\<lparr>once := True\<rparr>)
           | Inr lg \<Rightarrow>
               Returns (s\<lparr>heap := heap s @ [lg], logInstance := Some (length (heap s)),
                          once := True\<rparr>))"

definition pkg_Error :: "string \<Rightarrow> Field list \<Rightarrow> Process \<Rightarrow> outcome" where
  "pkg_Error msg tags s = perform (pkg_Logger_Error (load s (logInstance s)) msg tags) s"

definition pkg_Errorf :: "Sprintf \<Rightarrow> string \<Rightarrow> iface list \<Rightarrow> Process \<Rightarrow> outcome" where
  "pkg_Errorf sprintf msg args s =
     perform (pkg_Logger_Error (load s (logInstance s)) (sprintf msg args) []) s"

datatype pkg_Call =
    pkg_Call_Init "pkg_Config option"
  | pkg_Call_Info string "Field list"
  | pkg_Call_Error string "Field list"
  | pkg_Call_Debug string "Field list"
  | pkg_Call_Warn string "Field list"
  | pkg_Call_Fatal string "Field list"
  | pkg_Call_Infof string "iface list"
  | pkg_Call_Errorf string "iface list"
  | pkg_Call_Debugf string "iface list"
  | pkg_Call_Warnf string "iface list"
  | pkg_Call_Fatalf string "iface list"
  | pkg_Call_Cleanup

fun pkg_exec :: "Sprintf \<Rightarrow> pkg_Call \<Rightarrow> Process \<Rightarrow> outcome" where
  "pkg_exec sprintf (pkg_Call_Init config) s = pkg_Init config s"
| "pkg_exec sprintf (pkg_Call_Info msg tags) s = Info msg tags s"
| "pkg_exec sprintf (pkg_Call_Error msg tags) s = pkg_Error msg tags s"
| "pkg_exec sprintf (pkg_Call_Debug msg tags) s = Debug msg tags s"
| "pkg_exec sprintf (pkg_Call_Warn msg tags) s = Warn msg tags s"
| "pkg_exec sprintf (pkg_Call_Fatal msg tags) s = Fatal msg tags s"
| "pkg_exec sprintf (pkg_Call_Infof msg args) s = Infof sprintf msg args s"
| "pkg_exec sprintf (pkg_Call_Errorf msg args) s = pkg_Errorf sprintf msg args s"
| "pkg_exec sprintf (pkg_Call_Debugf msg args) s = Debugf sprintf msg args s"
| "pkg_exec sprintf (pkg_Call_Warnf msg args) s = Warnf sprintf msg args s"
| "pkg_exec sprintf (pkg_Call_Fatalf msg args) s = Fatalf sprintf msg args s"
| "pkg_exec sprintf pkg_Call_Cleanup s = Cleanup s"

fun pkg_run :: "Sprintf \<Rightarrow> pkg_Call list \<Rightarrow> Process \<Rightarrow> outcome" where
  "pkg_run sprintf [] s = Returns s"
| "pkg_run sprintf (c # cs) s =
     (case pkg_exec sprintf c s of
        Returns s' \<Rightarrow> pkg_run sprintf cs s'
      | Exits s' \<Rightarrow> Exits s'
      | Panics p s' \<Rightarrow> Panics p s')"

fun pkg_logs_or_flushes :: "pkg_Call \<Rightarrow> bool" where
  "pkg_logs_or_flushes (pkg_Call_Init config) = False"
| "pkg_logs_or_flushes c = True"

section \<open>The oldest copy\<close>

text \<open>
  The third file of package \<^verbatim>\<open>logger\<close> has the configuration struct and the rotation
  writers of \<^verbatim>\<open>pkg/logger\<close>, the stock production encoder configuration, and an \<^verbatim>\<open>Init\<close>
  without \<^verbatim>\<open>sync.Once\<close>: every call builds a logger and stores it.
\<close>

definition p0_infoCore :: "pkg_Config \<Rightarrow> Core" where
  "p0_infoCore config =
     NewCore (NewJSONEncoder NewProductionEncoderConfig)
       (AddSync (lumberjack (pkg_infoLogWriter config))) (MinLevel InfoLevel)"

definition p0_errorCore :: "pkg_Config \<Rightarrow> Core" where
  "p0_errorCore config =
     NewCore (NewJSONEncoder NewProductionEncoderConfig)
       (AddSync (lumberjack (pkg_errorLogWriter config))) (MinLevel ErrorLevel)"

definition p0_NewLogger :: "pkg_Config option \<Rightarrow> panic + Logger" where
  "p0_NewLogger config =
     (case config of
        None \<Rightarrow> Inl (NilPointerDereference ptr_Config)
      | Some c \<Rightarrow>
          (let core = NewTee [p0_infoCore c, p0_errorCore c];
               zlog = zap_New core
           in Inr \<lparr>zap = zlog\<rparr>))"

definition p0_Init :: "pkg_Config option \<Rightarrow> Process \<Rightarrow> outcome" where
  "p0_Init config s =
     (case p0_NewLogger config of
        Inl p \<Rightarrow> Panics p s
      | Inr lg \<Rightarrow> Returns (s\<lparr>heap := heap s @ [lg], logInstance := Some (length (heap s))\<rparr>))"

section \<open>Properties\<close>

text \<open>
  The states in which a process that uses a guarded copy of the package can be between
  two calls: before \<^verbatim>\<open>once.Do\<close> has run nothing is allocated and \<^verbatim>\<open>logInstance\<close> is nil;
  afterwards there is one logger, and \<^verbatim>\<open>logInstance\<close> points to it.
\<close>

definition consistent :: "Process \<Rightarrow> bool" where
  "consistent s =
     (if once s then length (heap s) = 1 \<and> logInstance s = Some 0
      else heap s = [] \<and> logInstance s = None)"

subsection \<open>Auxiliary facts\<close>

lemmas Level_defs =
  DebugLevel_def InfoLevel_def WarnLevel_def ErrorLevel_def DPanicLevel_def PanicLevel_def
  FatalLevel_def

lemma Check_NewLogger:
  "Check (core (zap_New (NewTee [infoCore c, errorCore c, consoleCore c]))) lvl =
     (if DebugLevel \<le> lvl \<and> lvl \<le> WarnLevel then [infoCore c] else []) @
     (if ErrorLevel \<le> lvl then [errorCore c] else []) @
     (if DebugLevel \<le> lvl then [consoleCore c] else [])"
  by (simp add: Check_def zap_New_def NewTee_def infoCore_def errorCore_def consoleCore_def
      NewCore_def)

lemma Check_pkg_NewLogger:
  "Check (core (zap_New (NewTee [pkg_infoCore c, pkg_errorCore c]))) lvl =
     (if InfoLevel \<le> lvl then [pkg_infoCore c] else []) @
     (if ErrorLevel \<le> lvl then [pkg_errorCore c] else [])"
  by (simp add: Check_def zap_New_def NewTee_def pkg_infoCore_def pkg_errorCore_def NewCore_def)

lemma cores_distinct:
  "infoCore c \<noteq> errorCore c" "infoCore c \<noteq> consoleCore c" "errorCore c \<noteq> consoleCore c"
proof -
  have "(\<lambda>lvl::Level. lvl \<ge> DebugLevel \<and> lvl \<le> WarnLevel) \<noteq> (\<lambda>lvl. lvl \<ge> ErrorLevel)"
  proof
    assume "(\<lambda>lvl::Level. lvl \<ge> DebugLevel \<and> lvl \<le> WarnLevel) = (\<lambda>lvl. lvl \<ge> ErrorLevel)"
    then have "((0::Level) \<ge> DebugLevel \<and> 0 \<le> WarnLevel) = ((0::Level) \<ge> ErrorLevel)"
      by (rule fun_cong)
    then show False by (simp add: Level_defs)
  qed
  then show "infoCore c \<noteq> errorCore c"
    by (simp add: infoCore_def errorCore_def NewCore_def)
  show "infoCore c \<noteq> consoleCore c" "errorCore c \<noteq> consoleCore c"
    by (simp_all add: infoCore_def errorCore_def consoleCore_def NewCore_def)
qed

lemma zapErrorWithStack_Some:
  "zapErrorWithStack trace (Some e) =
     Inr (zap_String ''error'' (err_Error e), zap_String ''stacktrace'' (take 1024 trace))"
  by (simp add: zapErrorWithStack_def runtime_Stack_def Let_def min_def)

lemma records_of_zap_log:
  "map snd (zap_log z lvl m fs) =
     replicate (length (Check (core z) lvl)) \<lparr>Level = lvl, Message = m, Fields = fs\<rparr>"
  by (simp add: zap_log_def comp_def map_replicate_const)

lemma Logger_Error_Some:
  "Logger_Error trace (Some lg) msg (Some e) tags =
     zap_Error (zap lg) msg
       (tags @ [zap_String ''error'' (err_Error e), zap_String ''error'' (err_Error e),
                zap_String ''stacktrace'' (take 1024 trace)])"
  by (simp add: Logger_Error_def zapErrorWithStack_Some)


lemma perform_frame:
  "heap (state_of (perform e s)) = heap s"
  "logInstance (state_of (perform e s)) = logInstance s"
  "once (state_of (perform e s)) = once s"
  by (cases e; simp)+

lemmas logging_defs =
  Info_def Error_def Debug_def Warn_def Fatal_def Infof_def Errorf_def Debugf_def Warnf_def
  Fatalf_def pkg_Error_def pkg_Errorf_def

lemma Cleanup_frame:
  "heap (state_of (Cleanup s)) = heap s"
  "logInstance (state_of (Cleanup s)) = logInstance s"
  "once (state_of (Cleanup s)) = once s"
  by (simp_all add: Cleanup_def perform_frame split: option.splits)

lemma exec_frame:
  assumes "logs_or_flushes call \<or> call = Call_GetInstance"
  shows "heap (state_of (exec sprintf call s)) = heap s"
    and "logInstance (state_of (exec sprintf call s)) = logInstance s"
    and "once (state_of (exec sprintf call s)) = once s"
  using assms by (cases call; simp add: logging_defs perform_frame Cleanup_frame)+

lemma pkg_exec_frame:
  assumes "pkg_logs_or_flushes call"
  shows "heap (state_of (pkg_exec sprintf call s)) = heap s"
    and "logInstance (state_of (pkg_exec sprintf call s)) = logInstance s"
    and "once (state_of (pkg_exec sprintf call s)) = once s"
  using assms by (cases call; simp add: logging_defs perform_frame Cleanup_frame)+

lemma Init_once: "once s \<Longrightarrow> Init config s = Returns s"
  by (simp add: Init_def)

lemma pkg_Init_once: "once s \<Longrightarrow> pkg_Init config s = Returns s"
  by (simp add: pkg_Init_def)

lemma Init_consistent:
  "consistent s \<Longrightarrow> Init config s = Returns s' \<Longrightarrow> consistent s'"
  by (auto simp: Init_def consistent_def NewLogger_def split: if_splits option.splits)

lemma pkg_Init_consistent:
  "consistent s \<Longrightarrow> pkg_Init config s = Returns s' \<Longrightarrow> consistent s'"
  by (auto simp: pkg_Init_def consistent_def pkg_NewLogger_def split: if_splits option.splits)

lemma Init_heap:
  "consistent s \<Longrightarrow> length (heap (state_of (Init config s))) \<le> 1"
  by (auto simp: Init_def consistent_def NewLogger_def split: if_splits option.splits)

lemma pkg_Init_heap:
  "consistent s \<Longrightarrow> length (heap (state_of (pkg_Init config s))) \<le> 1"
  by (auto simp: pkg_Init_def consistent_def pkg_NewLogger_def split: if_splits option.splits)

lemma consistent_frame:
  "consistent s \<Longrightarrow> heap s' = heap s \<Longrightarrow> logInstance s' = logInstance s \<Longrightarrow>
   once s' = once s \<Longrightarrow> consistent s'"
  by (simp add: consistent_def)

lemma exec_consistent:
  assumes "consistent s" and "exec sprintf call s = Returns s'"
  shows "consistent s'"
proof (cases "logs_or_flushes call \<or> call = Call_GetInstance")
  case True
  from exec_frame [OF True, of sprintf s] assms(2) have
    "heap s' = heap s" "logInstance s' = logInstance s" "once s' = once s"
    by simp_all
  with assms(1) show ?thesis by (rule consistent_frame)
next
  case False
  then obtain config where "call = Call_Init config" by (cases call) simp_all
  with assms show ?thesis by (simp add: Init_consistent)
qed

lemma exec_heap:
  assumes "consistent s"
  shows "length (heap (state_of (exec sprintf call s))) \<le> 1"
proof (cases "logs_or_flushes call \<or> call = Call_GetInstance")
  case True
  from exec_frame(1) [OF True] assms show ?thesis
    by (simp add: consistent_def split: if_splits)
next
  case False
  then obtain config where "call = Call_Init config" by (cases call) simp_all
  with Init_heap [OF assms, of config] show ?thesis by simp
qed

lemma run_heap:
  "consistent s \<Longrightarrow> length (heap (state_of (run sprintf calls s))) \<le> 1"
proof (induction calls arbitrary: s)
  case Nil
  then show ?case by (simp add: consistent_def split: if_splits)
next
  case (Cons call calls)
  show ?case
  proof (cases "exec sprintf call s")
    case (Returns s')
    with Cons.prems have "consistent s'" by (simp add: exec_consistent)
    with Cons.IH Returns show ?thesis by simp
  next
    case (Exits s')
    with exec_heap [OF Cons.prems, of sprintf call] show ?thesis by simp
  next
    case (Panics p s')
    with exec_heap [OF Cons.prems, of sprintf call] show ?thesis by simp
  qed
qed

lemma run_consistent:
  "consistent s \<Longrightarrow> run sprintf calls s = Returns s' \<Longrightarrow> consistent s'"
proof (induction calls arbitrary: s)
  case Nil
  then show ?case by simp
next
  case (Cons call calls)
  then show ?case
    by (cases "exec sprintf call s") (auto dest: exec_consistent)
qed

lemma consistent_start: "consistent start"
  by (simp add: consistent_def start_def)

lemma pkg_exec_consistent:
  assumes "consistent s" and "pkg_exec sprintf call s = Returns s'"
  shows "consistent s'"
proof (cases "pkg_logs_or_flushes call")
  case True
  from pkg_exec_frame [OF True, of sprintf s] assms(2) have
    "heap s' = heap s" "logInstance s' = logInstance s" "once s' = once s"
    by simp_all
  with assms(1) show ?thesis by (rule consistent_frame)
next
  case False
  then obtain config where "call = pkg_Call_Init config" by (cases call) simp_all
  with assms show ?thesis by (simp add: pkg_Init_consistent)
qed

lemma pkg_exec_heap:
  assumes "consistent s"
  shows "length (heap (state_of (pkg_exec sprintf call s))) \<le> 1"
proof (cases "pkg_logs_or_flushes call")
  case True
  from pkg_exec_frame(1) [OF True] assms show ?thesis
    by (simp add: consistent_def split: if_splits)
next
  case False
  then obtain config where "call = pkg_Call_Init config" by (cases call) simp_all
  with pkg_Init_heap [OF assms, of config] show ?thesis by simp
qed

lemma pkg_run_heap:
  "consistent s \<Longrightarrow> length (heap (state_of (pkg_run sprintf calls s))) \<le> 1"
proof (induction calls arbitrary: s)
  case Nil
  then show ?case by (simp add: consistent_def split: if_splits)
next
  case (Cons call calls)
  show ?case
  proof (cases "pkg_exec sprintf call s")
    case (Returns s')
    with Cons.prems have "consistent s'" by (simp add: pkg_exec_consistent)
    with Cons.IH Returns show ?thesis by simp
  next
    case (Exits s')
    with pkg_exec_heap [OF Cons.prems, of sprintf call] show ?thesis by simp
  next
    case (Panics p s')
    with pkg_exec_heap [OF Cons.prems, of sprintf call] show ?thesis by simp
  qed
qed

lemma pkg_run_consistent:
  "consistent s \<Longrightarrow> pkg_run sprintf calls s = Returns s' \<Longrightarrow> consistent s'"
proof (induction calls arbitrary: s)
  case Nil
  then show ?case by simp
next
  case (Cons call calls)
  then show ?case
    by (cases "pkg_exec sprintf call s") (auto dest: pkg_exec_consistent)
qed

lemma exec_after_Init:
  assumes "once s"
  shows "heap (state_of (exec sprintf call s)) = heap s"
    and "logInstance (state_of (exec sprintf call s)) = logInstance s"
proof -
  have "heap (state_of (exec sprintf call s)) = heap s \<and>
        logInstance (state_of (exec sprintf call s)) = logInstance s"
  proof (cases "logs_or_flushes call \<or> call = Call_GetInstance")
    case True
    then show ?thesis by (simp add: exec_frame)
  next
    case False
    then obtain config where "call = Call_Init config" by (cases call) simp_all
    with assms show ?thesis by (simp add: Init_once)
  qed
  then show "heap (state_of (exec sprintf call s)) = heap s"
    and "logInstance (state_of (exec sprintf call s)) = logInstance s"
    by simp_all
qed

lemma pkg_exec_after_Init:
  assumes "once s"
  shows "heap (state_of (pkg_exec sprintf call s)) = heap s"
    and "logInstance (state_of (pkg_exec sprintf call s)) = logInstance s"
proof -
  have "heap (state_of (pkg_exec sprintf call s)) = heap s \<and>
        logInstance (state_of (pkg_exec sprintf call s)) = logInstance s"
  proof (cases "pkg_logs_or_flushes call")
    case True
    then show ?thesis by (simp add: pkg_exec_frame)
  next
    case False
    then obtain config where "call = pkg_Call_Init config" by (cases call) simp_all
    with assms show ?thesis by (simp add: pkg_Init_once)
  qed
  then show "heap (state_of (pkg_exec sprintf call s)) = heap s"
    and "logInstance (state_of (pkg_exec sprintf call s)) = logInstance s"
    by simp_all
qed

lemma consistent_instance:
  "consistent s \<Longrightarrow> logInstance s \<noteq> None \<Longrightarrow> once s \<and> logInstance s = Some 0"
  by (simp add: consistent_def split: if_splits)

lemma zapErrorWithStack_None:
  "zapErrorWithStack trace None = Inl (NilPointerDereference ptr_error)"
  by (simp add: zapErrorWithStack_def runtime_Stack_def Let_def)

lemma Logger_Error_None:
  "Logger_Error trace l msg None tags = Panicked (NilPointerDereference ptr_error)"
  by (simp add: Logger_Error_def zapErrorWithStack_None)

lemma Logger_Errorf_eq:
  "Logger_Errorf sprintf trace l format args =
     (case l of
        None \<Rightarrow> Panicked (NilPointerDereference ptr_Logger)
      | Some lg \<Rightarrow>
          zap_Error (zap lg) (sprintf format args)
            (case stackErr args of
               None \<Rightarrow> []
             | Some e \<Rightarrow> [zap_String ''error'' (err_Error e),
                          zap_String ''stacktrace'' (take 1024 trace)]))"
  by (simp add: Logger_Errorf_def zapErrorWithStack_Some Let_def split: option.splits)

lemma records_of_Returned:
  "records_of (Returned (zap_log z lvl m fs)) =
     replicate (length (Check (core z) lvl)) \<lparr>Level = lvl, Message = m, Fields = fs\<rparr>"
  "records_of (Exited (zap_log z lvl m fs)) =
     replicate (length (Check (core z) lvl)) \<lparr>Level = lvl, Message = m, Fields = fs\<rparr>"
  by (simp_all add: records_of_def records_of_zap_log)

lemma load_None: "load s None = None"
  by (simp add: load_def)

lemma Logger_nil:
  "Logger_Info None msg tags = Panicked (NilPointerDereference ptr_Logger)"
  "Logger_Debug None msg tags = Panicked (NilPointerDereference ptr_Logger)"
  "Logger_Warn None msg tags = Panicked (NilPointerDereference ptr_Logger)"
  "Logger_Fatal None msg tags = Panicked (NilPointerDereference ptr_Logger)"
  "pkg_Logger_Error None msg tags = Panicked (NilPointerDereference ptr_Logger)"
  "Logger_Errorf sprintf trace None format args = Panicked (NilPointerDereference ptr_Logger)"
  "Logger_Error trace None msg (Some e) tags = Panicked (NilPointerDereference ptr_Logger)"
  "Logger_Error trace None msg None tags = Panicked (NilPointerDereference ptr_error)"
  by (simp_all add: Logger_Info_def Logger_Debug_def Logger_Warn_def Logger_Fatal_def
      pkg_Logger_Error_def Logger_Errorf_eq Logger_Error_None)
    (simp add: Logger_Error_def zapErrorWithStack_Some)

lemma exec_nil:
  assumes "logs_or_flushes call" and "logInstance s = None"
  shows "\<exists>p. exec sprintf call s = Panics (NilPointerDereference p) s \<and>
     (p = ptr_Logger \<or> p = ptr_error \<and> (\<exists>trace msg tags. call = Call_Error trace msg None tags))"
proof (cases call)
  case (Call_Error trace msg err tags)
  with assms show ?thesis
    by (cases err) (simp_all add: Error_def load_None Logger_nil)
qed (use assms in \<open>simp_all add: logging_defs Cleanup_def load_None Logger_nil\<close>)

lemma pkg_exec_nil:
  assumes "pkg_logs_or_flushes call" and "logInstance s = None"
  shows "pkg_exec sprintf call s = Panics (NilPointerDereference ptr_Logger) s"
  using assms by (cases call) (simp_all add: logging_defs Cleanup_def load_None Logger_nil)

lemma perform_not_Panics:
  "e \<noteq> Panicked p \<Longrightarrow> perform e s \<noteq> Panics p s'"
  by (cases e) simp_all

lemma Logger_Some_not_nil:
  "Logger_Info (Some lg) msg tags \<noteq> Panicked (NilPointerDereference ptr_Logger)"
  "Logger_Debug (Some lg) msg tags \<noteq> Panicked (NilPointerDereference ptr_Logger)"
  "Logger_Warn (Some lg) msg tags \<noteq> Panicked (NilPointerDereference ptr_Logger)"
  "Logger_Fatal (Some lg) msg tags \<noteq> Panicked (NilPointerDereference ptr_Logger)"
  "pkg_Logger_Error (Some lg) msg tags \<noteq> Panicked (NilPointerDereference ptr_Logger)"
  "Logger_Errorf sprintf trace (Some lg) format args \<noteq> Panicked (NilPointerDereference ptr_Logger)"
  "Logger_Error trace (Some lg) msg err tags \<noteq> Panicked (NilPointerDereference ptr_Logger)"
  by (simp_all add: Logger_Info_def Logger_Debug_def Logger_Warn_def Logger_Fatal_def
      pkg_Logger_Error_def Logger_Errorf_eq
      zap_Info_def zap_Debug_def zap_Warn_def zap_Fatal_def zap_Error_def)
    (cases err; simp add: Logger_Error_None Logger_Error_Some zap_Error_def)

lemma exec_not_nil:
  assumes "load s (logInstance s) \<noteq> None"
  shows "exec sprintf call s \<noteq> Panics (NilPointerDereference ptr_Logger) s'"
proof -
  from assms obtain lg where lg: "load s (logInstance s) = Some lg" by blast
  show ?thesis
  proof (cases call)
    case (Call_Init config)
    from assms have "logInstance s \<noteq> None" by (auto simp: load_def split: option.splits)
    then show ?thesis using Call_Init
      by (auto simp: Init_def NewLogger_def split: option.splits)
  qed (simp_all add: logging_defs Cleanup_def lg perform_not_Panics Logger_Some_not_nil
        zap_Sync_def)
qed

lemma pkg_exec_not_nil:
  assumes "load s (logInstance s) \<noteq> None"
  shows "pkg_exec sprintf call s \<noteq> Panics (NilPointerDereference ptr_Logger) s'"
proof -
  from assms obtain lg where lg: "load s (logInstance s) = Some lg" by blast
  show ?thesis
  proof (cases call)
    case (pkg_Call_Init config)
    from assms have "logInstance s \<noteq> None" by (auto simp: load_def split: option.splits)
    then show ?thesis using pkg_Call_Init
      by (auto simp: pkg_Init_def pkg_NewLogger_def split: option.splits)
  qed (simp_all add: logging_defs Cleanup_def lg perform_not_Panics Logger_Some_not_nil
        zap_Sync_def)
qed

lemma run_once:
  "once s \<Longrightarrow> run sprintf calls s = Returns s' \<Longrightarrow> once s'"
proof (induction calls arbitrary: s)
  case Nil
  then show ?case by simp
next
  case (Cons call calls)
  show ?case
  proof (cases "exec sprintf call s")
    case (Returns s1)
    have "once (state_of (exec sprintf call s))"
    proof (cases "logs_or_flushes call \<or> call = Call_GetInstance")
      case True
      with Cons.prems(1) show ?thesis by (simp add: exec_frame)
    next
      case False
      then obtain config where "call = Call_Init config" by (cases call) simp_all
      with Cons.prems(1) show ?thesis by (simp add: Init_once)
    qed
    with Returns have "once s1" by simp
    with Cons.IH [of s1] Cons.prems(2) Returns show ?thesis by simp
  next
    case (Exits s1)
    with Cons.prems(2) show ?thesis by simp
  next
    case (Panics p s1)
    with Cons.prems(2) show ?thesis by simp
  qed
qed

lemma pkg_run_once:
  "once s \<Longrightarrow> pkg_run sprintf calls s = Returns s' \<Longrightarrow> once s'"
proof (induction calls arbitrary: s)
  case Nil
  then show ?case by simp
next
  case (Cons call calls)
  show ?case
  proof (cases "pkg_exec sprintf call s")
    case (Returns s1)
    have "once (state_of (pkg_exec sprintf call s))"
    proof (cases "pkg_logs_or_flushes call")
      case True
      with Cons.prems(1) show ?thesis by (simp add: pkg_exec_frame)
    next
      case False
      then obtain config where "call = pkg_Call_Init config" by (cases call) simp_all
      with Cons.prems(1) show ?thesis by (simp add: pkg_Init_once)
    qed
    with Returns have "once s1" by simp
    with Cons.IH [of s1] Cons.prems(2) Returns show ?thesis by simp
  next
    case (Exits s1)
    with Cons.prems(2) show ?thesis by simp
  next
    case (Panics p s1)
    with Cons.prems(2) show ?thesis by simp
  qed
qed

lemma consistent_once_load:
  "consistent s \<Longrightarrow> once s \<Longrightarrow> load s (logInstance s) \<noteq> None"
  by (simp add: consistent_def load_def)

lemma run_after_Init:
  assumes "run sprintf (Call_Init (Some c) # calls) start = Returns s1"
  shows "load s1 (logInstance s1) \<noteq> None"
proof -
  obtain s0 where s0: "Init (Some c) start = Returns s0" and o: "once s0"
    by (simp add: Init_def start_def NewLogger_def)
  from s0 have c0: "consistent s0" by (rule Init_consistent [OF consistent_start])
  from assms s0 have r: "run sprintf calls s0 = Returns s1" by simp
  from run_consistent [OF c0 r] run_once [OF o r] show ?thesis
    by (rule consistent_once_load)
qed

lemma pkg_run_after_Init:
  assumes "pkg_run sprintf (pkg_Call_Init (Some c) # calls) start = Returns s1"
  shows "load s1 (logInstance s1) \<noteq> None"
proof -
  obtain s0 where s0: "pkg_Init (Some c) start = Returns s0" and o: "once s0"
    by (simp add: pkg_Init_def start_def pkg_NewLogger_def)
  from s0 have c0: "consistent s0" by (rule pkg_Init_consistent [OF consistent_start])
  from assms s0 have r: "pkg_run sprintf calls s0 = Returns s1" by simp
  from pkg_run_consistent [OF c0 r] pkg_run_once [OF o r] show ?thesis
    by (rule consistent_once_load)
qed

subsection \<open>Claim C1\<close>

text \<open>
  Claim C1, as amended. The tee built by \<^verbatim>\<open>NewLogger\<close> of the root package hands a record
  of level \<open>lvl\<close> to exactly these cores: the informational file when \<open>lvl\<close> lies between
  debug and warn, the error file when \<open>lvl\<close> is error or above, the console when \<open>lvl\<close> is
  debug or above. So a warn-level record goes to the informational file and the console,
  an error-level record to the error file and the console. The tee built by \<^verbatim>\<open>NewLogger\<close>
  of \<^verbatim>\<open>pkg/logger\<close> has no console; its informational file takes every level from info
  upwards, its error file every level from error upwards.
\<close>

theorem C1_routing:
  "\<exists>lg plg.
     NewLogger (Some c) = Inr lg \<and> pkg_NewLogger (Some pc) = Inr plg \<and>
     Check (core (zap lg)) lvl =
       (if DebugLevel \<le> lvl \<and> lvl \<le> WarnLevel then [infoCore c] else []) @
       (if ErrorLevel \<le> lvl then [errorCore c] else []) @
       (if DebugLevel \<le> lvl then [consoleCore c] else []) \<and>
     Check (core (zap lg)) WarnLevel = [infoCore c, consoleCore c] \<and>
     Check (core (zap lg)) ErrorLevel = [errorCore c, consoleCore c] \<and>
     Check (core (zap plg)) lvl =
       (if InfoLevel \<le> lvl then [pkg_infoCore pc] else []) @
       (if ErrorLevel \<le> lvl then [pkg_errorCore pc] else [])"
  unfolding NewLogger_def pkg_NewLogger_def
  by (simp add: Check_NewLogger Check_pkg_NewLogger Let_def) (simp add: Level_defs)

text \<open>
  Claim C1 as stated fails in \<^verbatim>\<open>pkg/logger\<close>: there an error-level record is written to
  the informational file as well as to the error file, and to no console.
\<close>

theorem C1_counterexample:
  "map out (map fst (deliveries (pkg_Logger_Error
      (Some (projr (pkg_NewLogger
        (Some \<lparr>pkg_InfoLogPath = ''info.log'', pkg_ErrorLogPath = ''error.log''\<rparr>))))
      ''disk full'' []))) =
     [AddSync (lumberjack
        \<lparr>Filename = ''info.log'', MaxSize = 500, MaxBackups = 3, MaxAge = 28\<rparr>),
      AddSync (lumberjack
        \<lparr>Filename = ''error.log'', MaxSize = 500, MaxBackups = 3, MaxAge = 28\<rparr>)]"
  by (simp add: pkg_Logger_Error_def pkg_NewLogger_def zap_Error_def zap_log_def
      Check_def zap_New_def NewTee_def pkg_infoCore_def pkg_errorCore_def NewCore_def
      pkg_infoLogWriter_def pkg_errorLogWriter_def Level_defs)

subsection \<open>Claim C2\<close>

text \<open>
  Claim C2, as amended. In the root package and in \<^verbatim>\<open>pkg/logger\<close>, where \<^verbatim>\<open>Init\<close> runs
  \<^verbatim>\<open>NewLogger\<close> under \<^verbatim>\<open>once.Do\<close>: whatever sequence of package-level calls a process
  makes, the package has allocated at most one \<^verbatim>\<open>Logger\<close>; the first \<^verbatim>\<open>Init\<close> allocates
  one, and a later \<^verbatim>\<open>Init\<close> returns the state unchanged; and once \<^verbatim>\<open>logInstance\<close> is
  set, it points to that one logger before and after every further call. Calls of
  \<^verbatim>\<open>Init\<close> from several goroutines are serialised by \<^verbatim>\<open>sync.Once\<close> and so are one of
  these sequences.
\<close>

theorem C2_guarded_Init:
  "length (heap (state_of (run sprintf calls start))) \<le> 1 \<and>
   length (heap (state_of (pkg_run sprintf pcalls start))) \<le> 1 \<and>
   (\<exists>s1. Init (Some c) start = Returns s1 \<and> length (heap s1) = 1 \<and>
      logInstance s1 = Some 0 \<and> Init c' s1 = Returns s1) \<and>
   (\<exists>s1. pkg_Init (Some pc) start = Returns s1 \<and> length (heap s1) = 1 \<and>
      logInstance s1 = Some 0 \<and> pkg_Init pc' s1 = Returns s1) \<and>
   (run sprintf calls start = Returns s \<and> logInstance s \<noteq> None \<longrightarrow>
      logInstance s = Some 0 \<and> Init c' s = Returns s \<and>
      logInstance (state_of (exec sprintf call s)) = Some 0 \<and>
      heap (state_of (exec sprintf call s)) = heap s) \<and>
   (pkg_run sprintf pcalls start = Returns s \<and> logInstance s \<noteq> None \<longrightarrow>
      logInstance s = Some 0 \<and> pkg_Init pc' s = Returns s \<and>
      logInstance (state_of (pkg_exec sprintf pcall s)) = Some 0 \<and>
      heap (state_of (pkg_exec sprintf pcall s)) = heap s)"
proof (intro conjI impI)
  show "length (heap (state_of (run sprintf calls start))) \<le> 1"
    by (rule run_heap [OF consistent_start])
  show "length (heap (state_of (pkg_run sprintf pcalls start))) \<le> 1"
    by (rule pkg_run_heap [OF consistent_start])
  show "\<exists>s1. Init (Some c) start = Returns s1 \<and> length (heap s1) = 1 \<and>
      logInstance s1 = Some 0 \<and> Init c' s1 = Returns s1"
    by (simp add: Init_def start_def NewLogger_def)
  show "\<exists>s1. pkg_Init (Some pc) start = Returns s1 \<and> length (heap s1) = 1 \<and>
      logInstance s1 = Some 0 \<and> pkg_Init pc' s1 = Returns s1"
    by (simp add: pkg_Init_def start_def pkg_NewLogger_def)
next
  assume a: "run sprintf calls start = Returns s \<and> logInstance s \<noteq> None"
  then have "consistent s" using run_consistent [OF consistent_start] by blast
  with a have o: "once s" and l: "logInstance s = Some 0"
    by (simp_all add: consistent_instance)
  show "logInstance s = Some 0" by (rule l)
  show "Init c' s = Returns s" by (rule Init_once [OF o])
  show "logInstance (state_of (exec sprintf call s)) = Some 0"
    using exec_after_Init(2) [OF o] l by simp
  show "heap (state_of (exec sprintf call s)) = heap s"
    by (rule exec_after_Init(1) [OF o])
next
  assume a: "pkg_run sprintf pcalls start = Returns s \<and> logInstance s \<noteq> None"
  then have "consistent s" using pkg_run_consistent [OF consistent_start] by blast
  with a have o: "once s" and l: "logInstance s = Some 0"
    by (simp_all add: consistent_instance)
  show "logInstance s = Some 0" by (rule l)
  show "pkg_Init pc' s = Returns s" by (rule pkg_Init_once [OF o])
  show "logInstance (state_of (pkg_exec sprintf pcall s)) = Some 0"
    using pkg_exec_after_Init(2) [OF o] l by simp
  show "heap (state_of (pkg_exec sprintf pcall s)) = heap s"
    by (rule pkg_exec_after_Init(1) [OF o])
qed

text \<open>
  Claim C2 as stated fails in the oldest copy: two calls of its \<^verbatim>\<open>Init\<close> leave two
  loggers, and the second call moves \<^verbatim>\<open>logInstance\<close> from the first to the second.
\<close>

theorem C2_counterexample:
  "length (heap (state_of (p0_Init
      (Some \<lparr>pkg_InfoLogPath = ''info.log'', pkg_ErrorLogPath = ''error.log''\<rparr>)
      (state_of (p0_Init
        (Some \<lparr>pkg_InfoLogPath = ''info.log'', pkg_ErrorLogPath = ''error.log''\<rparr>)
        start))))) = 2 \<and>
   logInstance (state_of (p0_Init
      (Some \<lparr>pkg_InfoLogPath = ''info.log'', pkg_ErrorLogPath = ''error.log''\<rparr>)
      start)) = Some 0 \<and>
   logInstance (state_of (p0_Init
      (Some \<lparr>pkg_InfoLogPath = ''info.log'', pkg_ErrorLogPath = ''error.log''\<rparr>)
      (state_of (p0_Init
        (Some \<lparr>pkg_InfoLogPath = ''info.log'', pkg_ErrorLogPath = ''error.log''\<rparr>)
        start)))) = Some 1"
  by (simp add: p0_Init_def p0_NewLogger_def start_def)

text \<open>
  The amended claim C2 at a process that calls \<^verbatim>\<open>Init\<close> and then \<^verbatim>\<open>Init\<close> again with
  another configuration: \<^verbatim>\<open>logInstance\<close> still points to the first logger.
\<close>

theorem C2_witness:
  "run (\<lambda>format args. format)
     [Call_Init (Some \<lparr>InfoLogPath = ''info.log'', ErrorLogPath = ''error.log'', Mode = ''prod''\<rparr>)]
     start =
     Returns (state_of (Init
       (Some \<lparr>InfoLogPath = ''info.log'', ErrorLogPath = ''error.log'', Mode = ''prod''\<rparr>) start)) \<and>
   logInstance (state_of (Init
       (Some \<lparr>InfoLogPath = ''info.log'', ErrorLogPath = ''error.log'', Mode = ''prod''\<rparr>) start))
     \<noteq> None \<and>
   logInstance (state_of (exec (\<lambda>format args. format)
       (Call_Init (Some \<lparr>InfoLogPath = ''other.log'', ErrorLogPath = ''other.err'', Mode = ''dev''\<rparr>))
       (state_of (Init
         (Some \<lparr>InfoLogPath = ''info.log'', ErrorLogPath = ''error.log'', Mode = ''prod''\<rparr>) start))))
     = Some 0"
  using C2_guarded_Init [of "\<lambda>format args. format"
      "[Call_Init (Some \<lparr>InfoLogPath = ''info.log'', ErrorLogPath = ''error.log'', Mode = ''prod''\<rparr>)]"
      _ _ _ _ _
      "state_of (Init
         (Some \<lparr>InfoLogPath = ''info.log'', ErrorLogPath = ''error.log'', Mode = ''prod''\<rparr>) start)"
      "Call_Init (Some \<lparr>InfoLogPath = ''other.log'', ErrorLogPath = ''other.err'', Mode = ''dev''\<rparr>)"]
  by (simp add: Init_def NewLogger_def start_def)

subsection \<open>Claim C3\<close>

text \<open>
  Claim C3. \<^verbatim>\<open>Logger.Error\<close> of the root package, called on a logger with a non-nil error:
  every record it emits has level error, the message given, all the fields of the caller,
  a field \<open>error\<close> holding the message of the error, and a field \<open>stacktrace\<close> holding
  the first 1024 bytes of the trace, which is not empty when the trace that
  \<^verbatim>\<open>runtime.Stack\<close> formats is not (it always starts with the header line of the
  goroutine). On a logger built by \<^verbatim>\<open>NewLogger\<close> the record is emitted: the error file and
  the console write it.
\<close>

theorem C3_Error_fields:
  assumes "trace \<noteq> []"
  shows "take 1024 trace \<noteq> [] \<and>
     (\<forall>r \<in> set (records_of (Logger_Error trace (Some lg) msg (Some e) tags)).
        Level r = ErrorLevel \<and> Message r = msg \<and> set tags \<subseteq> set (Fields r) \<and>
        zap_String ''error'' (err_Error e) \<in> set (Fields r) \<and>
        zap_String ''stacktrace'' (take 1024 trace) \<in> set (Fields r)) \<and>
     (\<exists>lg0. NewLogger (Some c) = Inr lg0 \<and>
        map fst (deliveries (Logger_Error trace (Some lg0) msg (Some e) tags)) =
          [errorCore c, consoleCore c])"
proof (intro conjI)
  show "take 1024 trace \<noteq> []" using assms by (cases trace) simp_all
next
  show "\<forall>r \<in> set (records_of (Logger_Error trace (Some lg) msg (Some e) tags)).
        Level r = ErrorLevel \<and> Message r = msg \<and> set tags \<subseteq> set (Fields r) \<and>
        zap_String ''error'' (err_Error e) \<in> set (Fields r) \<and>
        zap_String ''stacktrace'' (take 1024 trace) \<in> set (Fields r)"
    by (auto simp: Logger_Error_Some zap_Error_def records_of_def records_of_zap_log)
next
  have "map fst (zap_log (zap_New (NewTee [infoCore c, errorCore c, consoleCore c])) ErrorLevel m fs)
        = [errorCore c, consoleCore c]" for m fs
    by (simp add: zap_log_def comp_def Check_NewLogger) (simp add: Level_defs)
  then show "\<exists>lg0. NewLogger (Some c) = Inr lg0 \<and>
        map fst (deliveries (Logger_Error trace (Some lg0) msg (Some e) tags)) =
          [errorCore c, consoleCore c]"
    by (simp add: NewLogger_def Logger_Error_Some zap_Error_def)
qed

text \<open>
  Claim C3 at a concrete call: the record written for an error \<open>disk full\<close> with one
  field of the caller.
\<close>

theorem C3_witness:
  "''goroutine 1 [running]:'' \<noteq> [] \<and>
   \<lparr>Level = ErrorLevel, Message = ''save failed'',
    Fields = [zap_String ''user'' ''u1'', zap_String ''error'' ''disk full'',
              zap_String ''error'' ''disk full'',
              zap_String ''stacktrace'' ''goroutine 1 [running]:'']\<rparr>
     \<in> set (records_of (Logger_Error ''goroutine 1 [running]:''
           (Some (projr (NewLogger
              (Some \<lparr>InfoLogPath = ''info.log'', ErrorLogPath = ''error.log'', Mode = ''prod''\<rparr>))))
           ''save failed'' (Some (errors_New ''disk full'')) [zap_String ''user'' ''u1''])) \<and>
   zap_String ''stacktrace'' (take 1024 ''goroutine 1 [running]:'')
     \<in> set (Fields \<lparr>Level = ErrorLevel, Message = ''save failed'',
         Fields = [zap_String ''user'' ''u1'', zap_String ''error'' ''disk full'',
                   zap_String ''error'' ''disk full'',
                   zap_String ''stacktrace'' ''goroutine 1 [running]:'']\<rparr>)"
  using C3_Error_fields [of "''goroutine 1 [running]:''"
      "projr (NewLogger
         (Some \<lparr>InfoLogPath = ''info.log'', ErrorLogPath = ''error.log'', Mode = ''prod''\<rparr>))"
      "''save failed''" "errors_New ''disk full''" "[zap_String ''user'' ''u1'']"]
  by (simp add: Logger_Error_Some zap_Error_def records_of_Returned NewLogger_def
      Check_NewLogger Level_defs)

subsection \<open>Claim C4\<close>


subsection \<open>Claim C5\<close>

text \<open>
  Claim C5. Each formatted method emits, on every core that accepts its level, a record
  whose message is \<open>sprintf format args\<close>. \<^verbatim>\<open>Infof\<close>, \<^verbatim>\<open>Debugf\<close>, \<^verbatim>\<open>Warnf\<close>,
  \<^verbatim>\<open>Fatalf\<close> and the \<^verbatim>\<open>Errorf\<close> of \<^verbatim>\<open>pkg/logger\<close> attach no field; the \<^verbatim>\<open>Errorf\<close> of
  the root package has the same message whatever fields the scan of its arguments adds.
  The package-level functions of these names do what the methods do on \<^verbatim>\<open>logInstance\<close>.
\<close>

theorem C5_formatted_message:
  "records_of (Logger_Infof sprintf (Some lg) format args) =
     replicate (length (Check (core (zap lg)) InfoLevel))
       \<lparr>Level = InfoLevel, Message = sprintf format args, Fields = []\<rparr> \<and>
   records_of (Logger_Debugf sprintf (Some lg) format args) =
     replicate (length (Check (core (zap lg)) DebugLevel))
       \<lparr>Level = DebugLevel, Message = sprintf format args, Fields = []\<rparr> \<and>
   records_of (Logger_Warnf sprintf (Some lg) format args) =
     replicate (length (Check (core (zap lg)) WarnLevel))
       \<lparr>Level = WarnLevel, Message = sprintf format args, Fields = []\<rparr> \<and>
   records_of (Logger_Fatalf sprintf (Some lg) format args) =
     replicate (length (Check (core (zap lg)) FatalLevel))
       \<lparr>Level = FatalLevel, Message = sprintf format args, Fields = []\<rparr> \<and>
   map Message (records_of (Logger_Errorf sprintf trace (Some lg) format args)) =
     replicate (length (Check (core (zap lg)) ErrorLevel)) (sprintf format args) \<and>
   records_of (pkg_Logger_Errorf sprintf (Some lg) format args) =
     replicate (length (Check (core (zap lg)) ErrorLevel))
       \<lparr>Level = ErrorLevel, Message = sprintf format args, Fields = []\<rparr> \<and>
   Infof sprintf format args s =
     perform (Logger_Infof sprintf (load s (logInstance s)) format args) s \<and>
   Debugf sprintf format args s =
     perform (Logger_Debugf sprintf (load s (logInstance s)) format args) s \<and>
   Warnf sprintf format args s =
     perform (Logger_Warnf sprintf (load s (logInstance s)) format args) s \<and>
   Fatalf sprintf format args s =
     perform (Logger_Fatalf sprintf (load s (logInstance s)) format args) s \<and>
   Errorf sprintf trace format args s =
     perform (Logger_Errorf sprintf trace (load s (logInstance s)) format args) s \<and>
   pkg_Errorf sprintf format args s =
     perform (pkg_Logger_Errorf sprintf (load s (logInstance s)) format args) s \<and>
   (\<exists>lg0. NewLogger (Some c) = Inr lg0 \<and>
      map Message (records_of (Logger_Infof sprintf (Some lg0) format args)) =
        [sprintf format args, sprintf format args] \<and>
      map Message (records_of (Logger_Errorf sprintf trace (Some lg0) format args)) =
        [sprintf format args, sprintf format args])"
proof (intro conjI)
  show "map Message (records_of (Logger_Errorf sprintf trace (Some lg) format args)) =
     replicate (length (Check (core (zap lg)) ErrorLevel)) (sprintf format args)"
    by (simp add: Logger_Errorf_eq zap_Error_def records_of_Returned)
  have two: "length (Check (core (zap_New (NewTee [infoCore c, errorCore c, consoleCore c]))) InfoLevel) = 2"
    "length (Check (core (zap_New (NewTee [infoCore c, errorCore c, consoleCore c]))) ErrorLevel) = 2"
    by (simp_all add: Check_NewLogger) (simp_all add: Level_defs)
  show "\<exists>lg0. NewLogger (Some c) = Inr lg0 \<and>
      map Message (records_of (Logger_Infof sprintf (Some lg0) format args)) =
        [sprintf format args, sprintf format args] \<and>
      map Message (records_of (Logger_Errorf sprintf trace (Some lg0) format args)) =
        [sprintf format args, sprintf format args]"
    by (simp add: NewLogger_def Logger_Infof_def Logger_Errorf_eq
        zap_Info_def zap_Error_def records_of_Returned two numeral_2_eq_2)
qed (simp_all add: Logger_Infof_def Logger_Debugf_def Logger_Warnf_def Logger_Fatalf_def
      pkg_Logger_Errorf_def zap_Info_def zap_Debug_def zap_Warn_def zap_Fatal_def
      zap_Error_def records_of_Returned logging_defs Logger_Info_def Logger_Debug_def
      Logger_Warn_def Logger_Fatal_def pkg_Logger_Error_def)

subsection \<open>Claim C6\<close>

text \<open>
  Claim C6. While \<^verbatim>\<open>logInstance\<close> is nil, every package-level logging function and
  \<^verbatim>\<open>Cleanup\<close> panics with a nil pointer dereference and leaves the state as it was, and
  the process runs no further call. The nil pointer is the logger, except that
  \<^verbatim>\<open>Error\<close> of the root package, given a nil error, already panics on the error. When
  \<^verbatim>\<open>logInstance\<close> points to a logger, no such call panics on a nil logger, and after an
  \<^verbatim>\<open>Init\<close> that returned, \<^verbatim>\<open>logInstance\<close> points to a logger in every state the process
  reaches. The same holds for \<^verbatim>\<open>pkg/logger\<close>.
\<close>

theorem C6_nil_instance:
  assumes "logs_or_flushes call" and "pkg_logs_or_flushes pcall"
  shows
    "(logInstance s = None \<longrightarrow>
        (\<exists>p. exec sprintf call s = Panics (NilPointerDereference p) s \<and>
             run sprintf (call # calls) s = Panics (NilPointerDereference p) s \<and>
             (p = ptr_Logger \<or>
              p = ptr_error \<and> (\<exists>trace msg tags. call = Call_Error trace msg None tags))) \<and>
        pkg_exec sprintf pcall s = Panics (NilPointerDereference ptr_Logger) s \<and>
        pkg_run sprintf (pcall # pcalls) s = Panics (NilPointerDereference ptr_Logger) s) \<and>
     (load s (logInstance s) \<noteq> None \<longrightarrow>
        (\<forall>s'. exec sprintf call s \<noteq> Panics (NilPointerDereference ptr_Logger) s') \<and>
        (\<forall>s'. pkg_exec sprintf pcall s \<noteq> Panics (NilPointerDereference ptr_Logger) s')) \<and>
     (\<forall>s1. run sprintf (Call_Init (Some c) # calls) start = Returns s1 \<longrightarrow>
        load s1 (logInstance s1) \<noteq> None) \<and>
     (\<forall>s1. pkg_run sprintf (pkg_Call_Init (Some pc) # pcalls) start = Returns s1 \<longrightarrow>
        load s1 (logInstance s1) \<noteq> None)"
proof (intro conjI impI allI)
  assume n: "logInstance s = None"
  from exec_nil [OF assms(1) n, of sprintf]
  show "\<exists>p. exec sprintf call s = Panics (NilPointerDereference p) s \<and>
             run sprintf (call # calls) s = Panics (NilPointerDereference p) s \<and>
             (p = ptr_Logger \<or>
              p = ptr_error \<and> (\<exists>trace msg tags. call = Call_Error trace msg None tags))"
    by auto
  from pkg_exec_nil [OF assms(2) n]
  show "pkg_exec sprintf pcall s = Panics (NilPointerDereference ptr_Logger) s"
    and "pkg_run sprintf (pcall # pcalls) s = Panics (NilPointerDereference ptr_Logger) s"
    by simp_all
next
  fix s'
  assume "load s (logInstance s) \<noteq> None"
  then show "exec sprintf call s \<noteq> Panics (NilPointerDereference ptr_Logger) s'"
    and "pkg_exec sprintf pcall s \<noteq> Panics (NilPointerDereference ptr_Logger) s'"
    by (rule exec_not_nil, rule pkg_exec_not_nil)
next
  fix s1
  assume "run sprintf (Call_Init (Some c) # calls) start = Returns s1"
  then show "load s1 (logInstance s1) \<noteq> None" by (rule run_after_Init)
next
  fix s1
  assume "pkg_run sprintf (pkg_Call_Init (Some pc) # pcalls) start = Returns s1"
  then show "load s1 (logInstance s1) \<noteq> None" by (rule pkg_run_after_Init)
qed

text \<open>
  Claim C6 at concrete calls: \<^verbatim>\<open>Info\<close> and \<^verbatim>\<open>Cleanup\<close> before \<^verbatim>\<open>Init\<close> panic on the nil
  logger; \<^verbatim>\<open>Info\<close> after \<^verbatim>\<open>Init\<close> does not.
\<close>

theorem C6_witness:
  "logs_or_flushes (Call_Info ''up'' []) \<and> pkg_logs_or_flushes pkg_Call_Cleanup \<and>
   logInstance start = None \<and>
   exec (\<lambda>format args. format) (Call_Info ''up'' []) start =
     Panics (NilPointerDereference ptr_Logger) start \<and>
   pkg_exec (\<lambda>format args. format) pkg_Call_Cleanup start =
     Panics (NilPointerDereference ptr_Logger) start \<and>
   load (state_of (Init
       (Some \<lparr>InfoLogPath = ''info.log'', ErrorLogPath = ''error.log'', Mode = ''prod''\<rparr>) start))
     (logInstance (state_of (Init
       (Some \<lparr>InfoLogPath = ''info.log'', ErrorLogPath = ''error.log'', Mode = ''prod''\<rparr>) start)))
     \<noteq> None \<and>
   exec (\<lambda>format args. format) (Call_Info ''up'' [])
     (state_of (Init
       (Some \<lparr>InfoLogPath = ''info.log'', ErrorLogPath = ''error.log'', Mode = ''prod''\<rparr>) start))
     \<noteq> Panics (NilPointerDereference ptr_Logger) start"
  using
    C6_nil_instance [of "Call_Info ''up'' []" pkg_Call_Cleanup start "\<lambda>format args. format"]
    C6_nil_instance [of "Call_Info ''up'' []" pkg_Call_Cleanup
      "state_of (Init
         (Some \<lparr>InfoLogPath = ''info.log'', ErrorLogPath = ''error.log'', Mode = ''prod''\<rparr>) start)"
      "\<lambda>format args. format"]
  by (simp add: Init_def NewLogger_def start_def load_def Info_def Logger_Info_def Cleanup_def)

subsection \<open>Claim C7\<close>

text \<open>
  Claim C7. For every configuration, the two file writers built by \<^verbatim>\<open>NewLogger\<close> rotate at
  500 megabytes, keep 3 backups and 28 days; only the file names come from the
  configuration. This holds in all three copies of the package.
\<close>

theorem C7_rotation:
  "\<exists>lg plg olg.
     NewLogger (Some c) = Inr lg \<and> pkg_NewLogger (Some pc) = Inr plg \<and>
     p0_NewLogger (Some pc) = Inr olg \<and>
     map out (core (zap lg)) =
       [AddSync (lumberjack
          \<lparr>Filename = InfoLogPath c, MaxSize = 500, MaxBackups = 3, MaxAge = 28\<rparr>),
        AddSync (lumberjack
          \<lparr>Filename = ErrorLogPath c, MaxSize = 500, MaxBackups = 3, MaxAge = 28\<rparr>),
        AddSync (Lock os_Stdout)] \<and>
     map out (core (zap plg)) =
       [AddSync (lumberjack
          \<lparr>Filename = pkg_InfoLogPath pc, MaxSize = 500, MaxBackups = 3, MaxAge = 28\<rparr>),
        AddSync (lumberjack
          \<lparr>Filename = pkg_ErrorLogPath pc, MaxSize = 500, MaxBackups = 3, MaxAge = 28\<rparr>)] \<and>
     map out (core (zap olg)) = map out (core (zap plg))"
  by (simp add: NewLogger_def pkg_NewLogger_def p0_NewLogger_def zap_New_def NewTee_def
      infoCore_def errorCore_def consoleCore_def pkg_infoCore_def pkg_errorCore_def
      p0_infoCore_def p0_errorCore_def NewCore_def infoLogWriter_def errorLogWriter_def
      pkg_infoLogWriter_def pkg_errorLogWriter_def)

subsection \<open>Claim C8\<close>

text \<open>
  Claim C8. The console core encodes with the production configuration exactly when the
  mode is \<open>prod\<close>, and with the development configuration for every other mode, the
  empty one included. The mode changes nothing else: both file cores, and the writer and
  the level of the console core, are the same for every mode.
\<close>

theorem C8_console_encoder:
  "\<exists>lg.
     NewLogger (Some c) = Inr lg \<and>
     map enc (core (zap lg)) =
       [NewJSONEncoder encoderConfig, NewJSONEncoder encoderConfig,
        NewConsoleEncoder (getEncoderConfig c)] \<and>
     (getEncoderConfig c = NewProductionEncoderConfig) = (Mode c = ''prod'') \<and>
     (getEncoderConfig c = NewDevelopmentEncoderConfig) = (Mode c \<noteq> ''prod'') \<and>
     getEncoderConfig (c\<lparr>Mode := ''''\<rparr>) = NewDevelopmentEncoderConfig \<and>
     infoCore (c\<lparr>Mode := m\<rparr>) = infoCore c \<and>
     errorCore (c\<lparr>Mode := m\<rparr>) = errorCore c \<and>
     out (consoleCore (c\<lparr>Mode := m\<rparr>)) = out (consoleCore c) \<and>
     enab (consoleCore (c\<lparr>Mode := m\<rparr>)) = enab (consoleCore c)"
  by (simp add: NewLogger_def zap_New_def NewTee_def infoCore_def errorCore_def
      consoleCore_def NewCore_def getEncoderConfig_def infoLogWriter_def errorLogWriter_def
      NewProductionEncoderConfig_def NewDevelopmentEncoderConfig_def)

subsection \<open>Claim C10\<close>

text \<open>
  Claim C10. The field list that \<^verbatim>\<open>Logger.Error\<close> of the root package hands to
  \<^verbatim>\<open>zap.Logger.Error\<close> is the caller's fields followed by the field \<open>error\<close> twice (once
  built in place, once returned by \<^verbatim>\<open>zapErrorWithStack\<close>, both holding the message of the
  error) and the field \<open>stacktrace\<close>. It has two more fields with the key \<open>error\<close> than
  the caller passed, and every record emitted carries this list.
\<close>

theorem C10_error_key_twice:
  "Logger_Error trace (Some lg) msg (Some e) tags =
     zap_Error (zap lg) msg
       (tags @ [zap_String ''error'' (err_Error e), zap_String ''error'' (err_Error e),
                zap_String ''stacktrace'' (take 1024 trace)]) \<and>
   zapErrorWithStack trace (Some e) =
     Inr (zap_String ''error'' (err_Error e), zap_String ''stacktrace'' (take 1024 trace)) \<and>
   length (filter (\<lambda>f. Key f = ''error'')
     (tags @ [zap_String ''error'' (err_Error e), zap_String ''error'' (err_Error e),
              zap_String ''stacktrace'' (take 1024 trace)])) =
     length (filter (\<lambda>f. Key f = ''error'') tags) + 2 \<and>
   records_of (Logger_Error trace (Some lg) msg (Some e) tags) =
     replicate (length (Check (core (zap lg)) ErrorLevel))
       \<lparr>Level = ErrorLevel, Message = msg,
        Fields = tags @ [zap_String ''error'' (err_Error e),
                         zap_String ''error'' (err_Error e),
                         zap_String ''stacktrace'' (take 1024 trace)]\<rparr> \<and>
   Logger_Error trace l msg None tags = Panicked (NilPointerDereference ptr_error)"
  by (simp add: Logger_Error_Some Logger_Error_None zapErrorWithStack_Some zap_Error_def
      records_of_Returned zap_String_def)

end
